theory Spec2Isabelle
  imports Complex_Main
begin

section \<open>Trainer callbacks: \<^verbatim>\<open>autotrain/trainers/clm/callbacks.py\<close>\<close>

text \<open>
  The exceptions the Python of \<^verbatim>\<open>EvaluateOnEveryPercentCallback\<close> can raise:
  \<^verbatim>\<open>curr_step//max_steps\<close> raises \<^verbatim>\<open>ZeroDivisionError\<close> when \<^verbatim>\<open>max_steps\<close> is 0, and
  reading \<^verbatim>\<open>self.steps_done\<close> raises \<^verbatim>\<open>AttributeError\<close> when the instance has no such
  attribute.
\<close>

datatype error = ZeroDivisionError | AttributeError

text \<open>
  \<^verbatim>\<open>TrainerState\<close> and \<^verbatim>\<open>TrainerControl\<close> belong to the training library. The callback reads
  two integer fields of the state and writes one boolean field of the control; the
  records are extensible, so every other field of the library's classes is the
  \<open>more\<close> part and is carried along untouched.
\<close>

record TrainerState =
  global_step :: int
  max_steps :: int

record TrainerControl =
  should_evaluate :: bool

text \<open>
  An instance of \<^verbatim>\<open>EvaluateOnEveryPercentCallback\<close>. Python attributes exist only once
  they are assigned: \<open>steps_done = None\<close> is an instance on which the attribute
  \<^verbatim>\<open>steps_done\<close> was never set, \<open>steps_done = Some S\<close> one whose attribute holds the
  set \<open>S\<close>.
\<close>

record EvaluateOnEveryPercentCallback =
  steps_done :: "int set option"

text \<open>
  \<^verbatim>\<open>
  def __init__(self) -> None:
      super().__init__()
      steps_done = set([0])
  \<close>
  The set is bound to a local variable of the constructor, not to \<^verbatim>\<open>self.steps_done\<close>:
  it is dropped when the constructor returns and the instance gets no attribute.
\<close>

definition EvaluateOnEveryPercentCallback_init :: EvaluateOnEveryPercentCallback where
  "EvaluateOnEveryPercentCallback_init =
     (let steps_done_local = set [0::int]
      in \<lparr>steps_done = None\<rparr>)"

text \<open>
  Line 52, \<^verbatim>\<open>percent = int(100*(curr_step//max_steps))\<close>. Both operands are Python
  integers: \<^verbatim>\<open>//\<close> is floor division (as \<open>div\<close> on \<open>int\<close>) and raises on a zero divisor,
  and \<^verbatim>\<open>int\<close> of an integer is that integer.
\<close>

definition percent :: "int \<Rightarrow> int \<Rightarrow> error + int" where
  "percent curr_step max_steps' =
     (if max_steps' = 0 then Inl ZeroDivisionError
      else Inr (100 * (curr_step div max_steps')))"

text \<open>
  \<^verbatim>\<open>
  def on_step_begin(self, args, state, control, **kwargs):
      curr_step = state.global_step
      max_steps = state.max_steps
      percent = int(100*(curr_step//max_steps))
      if percent not in self.steps_done:
          self.steps_done.add(percent)
          control.should_evaluate = True
      return control
  \<close>
  The result is a pair: what the caller gets (the exception raised, or the control
  object that is returned, in its state after the call) and the callback instance
  after the call. Both exceptions are raised before anything is written. \<^verbatim>\<open>args\<close> is
  passed and never read; the keyword arguments are never read and are left out.
\<close>

definition on_step_begin ::
  "EvaluateOnEveryPercentCallback \<Rightarrow> 'args \<Rightarrow> 's TrainerState_scheme \<Rightarrow>
   'c TrainerControl_scheme \<Rightarrow>
   (error + 'c TrainerControl_scheme) \<times> EvaluateOnEveryPercentCallback" where
  "on_step_begin self args state control =
     (let curr_step = global_step state;
          max_steps' = max_steps state
      in case percent curr_step max_steps' of
           Inl e \<Rightarrow> (Inl e, self)
         | Inr p \<Rightarrow>
             (case steps_done self of
                None \<Rightarrow> (Inl AttributeError, self)
              | Some done \<Rightarrow>
                  if p \<notin> done
                  then (Inr (control\<lparr>should_evaluate := True\<rparr>),
                        self\<lparr>steps_done := Some (insert p done)\<rparr>)
                  else (Inr control, self)))"

text \<open>
  The training loop calls the hook once per step, each time with the state and the
  control of that step; an exception leaves the loop. \<open>run_steps\<close> threads the
  callback instance through such a sequence of calls and collects the controls
  returned.
\<close>

fun run_steps ::
  "EvaluateOnEveryPercentCallback \<Rightarrow> 'args \<Rightarrow>
   ('s TrainerState_scheme \<times> 'c TrainerControl_scheme) list \<Rightarrow>
   (error + 'c TrainerControl_scheme list) \<times> EvaluateOnEveryPercentCallback" where
  "run_steps self args [] = (Inr [], self)"
| "run_steps self args ((state, control) # rest) =
     (case on_step_begin self args state control of
        (Inl e, self') \<Rightarrow> (Inl e, self')
      | (Inr control', self') \<Rightarrow>
          (case run_steps self' args rest of
             (Inl e, self'') \<Rightarrow> (Inl e, self'')
           | (Inr controls, self'') \<Rightarrow> (Inr (control' # controls), self'')))"

text \<open>
  The calls of one training run whose \<^verbatim>\<open>max_steps\<close> is \<open>max_steps'\<close>, at the steps
  \<open>ks\<close> in turn, each with a control whose flag is clear.
\<close>

definition steps_of_run ::
  "int \<Rightarrow> int list \<Rightarrow> (TrainerState \<times> TrainerControl) list" where
  "steps_of_run max_steps' ks =
     map (\<lambda>k. (\<lparr>global_step = k, max_steps = max_steps'\<rparr>, \<lparr>should_evaluate = False\<rparr>)) ks"

text \<open>
  Two conditions on such a sequence of calls: every call has a positive \<^verbatim>\<open>max_steps\<close>,
  and every call has its step inside the run, \<open>0 \<le> global_step \<le> max_steps\<close>.
\<close>

definition positive_max_steps :: "('s TrainerState_scheme \<times> 'c) list \<Rightarrow> bool" where
  "positive_max_steps calls = list_all (\<lambda>(state, control). 0 < max_steps state) calls"

definition within_run :: "('s TrainerState_scheme \<times> 'c) list \<Rightarrow> bool" where
  "within_run calls =
     list_all (\<lambda>(state, control). 0 \<le> global_step state \<and> global_step state \<le> max_steps state)
       calls"

subsection \<open>The percent as the specification words it\<close>

text \<open>
  The specification's formula, to compare with \<open>percent\<close>:
  \<open>floor(100 * current_step / total_steps)\<close>, and that value clamped to \<open>[0,100]\<close>.
\<close>

definition floor_percent :: "int \<Rightarrow> int \<Rightarrow> int" where
  "floor_percent current_step total_steps = (100 * current_step) div total_steps"

definition clamped_percent :: "int \<Rightarrow> int \<Rightarrow> int" where
  "clamped_percent current_step total_steps =
     max 0 (min 100 (floor_percent current_step total_steps))"

section \<open>Text preprocessors: \<^verbatim>\<open>autotrain/preprocessor/text.py\<close>\<close>

text \<open>
  The dataclasses, with the fields in the order of the source. A dataframe is a value
  of the type parameter \<open>'df\<close> and a float one of \<open>'fl\<close>: the code below only passes
  them on. \<^verbatim>\<open>Optional[...]\<close> is \<open>option\<close>, with \<open>None\<close> as in Python.
\<close>

record ('df, 'fl) TextBinaryClassificationPreprocessor =
  train_data :: 'df
  text_column :: string
  label_column :: string
  username :: string
  project_name :: string
  token :: string
  valid_data :: "'df option"
  test_size :: "'fl option"
  seed :: "int option"
  convert_to_class_label :: "bool option"

record ('df, 'fl) LLMPreprocessor =
  train_data :: 'df
  username :: string
  project_name :: string
  token :: string
  valid_data :: "'df option"
  test_size :: "'fl option"
  seed :: "int option"
  text_column :: "string option"
  prompt_column :: "string option"
  rejected_text_column :: "string option"

text \<open>
  \<^verbatim>\<open>
  def split(self):                      # TextBinaryClassificationPreprocessor
      if self.valid_data is not None:
          return self.train_data, self.valid_data
      else:
          train_df, valid_df = train_test_split(
              self.train_data,
              test_size=self.test_size,
              random_state=self.seed,
              stratify=self.train_data[self.label_column],
          )
          train_df = train_df.reset_index(drop=True)
          valid_df = valid_df.reset_index(drop=True)
          return train_df, valid_df
  \<close>
  The split routine, the column selection and the index reset are the libraries';
  they are parameters here (\<open>train_test_split df test_size random_state stratify\<close>,
  \<open>getitem df column\<close>, \<open>reset_index df\<close>).
\<close>

definition TextBinaryClassificationPreprocessor_split ::
  "('df \<Rightarrow> 'fl option \<Rightarrow> int option \<Rightarrow> 'col \<Rightarrow> 'df \<times> 'df) \<Rightarrow>
   ('df \<Rightarrow> string \<Rightarrow> 'col) \<Rightarrow> ('df \<Rightarrow> 'df) \<Rightarrow>
   ('df, 'fl) TextBinaryClassificationPreprocessor \<Rightarrow> 'df \<times> 'df" where
  "TextBinaryClassificationPreprocessor_split train_test_split getitem reset_index self =
     (case TextBinaryClassificationPreprocessor.valid_data self of
        Some valid \<Rightarrow> (TextBinaryClassificationPreprocessor.train_data self, valid)
      | None \<Rightarrow>
          (let (train_df, valid_df) =
                 train_test_split
                   (TextBinaryClassificationPreprocessor.train_data self)
                   (TextBinaryClassificationPreprocessor.test_size self)
                   (TextBinaryClassificationPreprocessor.seed self)
                   (getitem (TextBinaryClassificationPreprocessor.train_data self)
                      (label_column self));
               train_df = reset_index train_df;
               valid_df = reset_index valid_df
           in (train_df, valid_df)))"

text \<open>
  \<^verbatim>\<open>
  def split(self):                      # LLMPreprocessor
      if self.valid_data is not None:
          return self.train_data, self.valid_data
      # no validation is done in llm training if validation data is not provided
      return self.train_data, self.train_data
  \<close>
\<close>

definition LLMPreprocessor_split :: "('df, 'fl) LLMPreprocessor \<Rightarrow> 'df \<times> 'df" where
  "LLMPreprocessor_split self =
     (case LLMPreprocessor.valid_data self of
        Some valid \<Rightarrow> (LLMPreprocessor.train_data self, valid)
      | None \<Rightarrow> (LLMPreprocessor.train_data self, LLMPreprocessor.train_data self))"

section \<open>Facts about one call and about a sequence of calls\<close>

lemma scaled_floor_le:
  assumes "0 < (t::int)"
  shows "100 * (c div t) \<le> (100 * c) div t"
proof -
  have "0 \<le> c mod t" using assms by simp
  moreover have "t * (c div t) + c mod t = c" by simp
  ultimately have "t * (c div t) \<le> c" by linarith
  then have "(100 * (c div t)) * t \<le> 100 * c" by (simp add: mult.commute)
  then have "((100 * (c div t)) * t) div t \<le> (100 * c) div t"
    using assms by (intro zdiv_mono1) auto
  then show ?thesis using assms by simp
qed

lemma in_range_percent:
  assumes "0 < max_steps st" and "0 \<le> global_step st" and "global_step st \<le> max_steps st"
  shows "100 * (global_step st div max_steps st) \<in> {0..100}"
proof -
  from assms have "0 \<le> global_step st div max_steps st"
    by (simp add: pos_imp_zdiv_nonneg_iff)
  moreover from assms have "global_step st div max_steps st \<le> max_steps st div max_steps st"
    by (intro zdiv_mono1) auto
  ultimately show ?thesis using assms by simp
qed

text \<open>A call on an instance that has its set, with a non-zero \<^verbatim>\<open>max_steps\<close>, returns.\<close>

lemma on_step_begin_with_set:
  assumes "steps_done self = Some S" and "max_steps state \<noteq> 0"
  shows "on_step_begin self args state control =
     (if 100 * (global_step state div max_steps state) \<notin> S
      then (Inr (control\<lparr>should_evaluate := True\<rparr>),
            self\<lparr>steps_done := Some (insert (100 * (global_step state div max_steps state)) S)\<rparr>)
      else (Inr control, self))"
  using assms by (simp add: on_step_begin_def percent_def)

lemma on_step_begin_returns:
  assumes "steps_done self = Some S" and "max_steps state \<noteq> 0"
  shows "\<exists>control' self'. on_step_begin self args state control = (Inr control', self')
           \<and> steps_done self' = Some (insert (100 * (global_step state div max_steps state)) S)"
proof (cases "100 * (global_step state div max_steps state) \<in> S")
  case True
  with assms show ?thesis
    by (simp add: on_step_begin_with_set insert_absorb)
next
  case False
  with assms show ?thesis
    by (simp add: on_step_begin_with_set)
qed

lemma on_step_begin_known_percent:
  assumes "steps_done self = Some S" and "max_steps state \<noteq> 0"
    and "100 * (global_step state div max_steps state) \<in> S"
  shows "on_step_begin self args state control = (Inr control, self)"
  using assms by (simp add: on_step_begin_with_set)

text \<open>
  A sequence of such calls returns every time, and the set after it is the set before
  it together with the percents of the calls.
\<close>

lemma run_steps_with_set:
  assumes "steps_done self = Some S" and "\<forall>sc \<in> set calls. max_steps (fst sc) \<noteq> 0"
  shows "\<exists>cs self'. run_steps self args calls = (Inr cs, self')
           \<and> length cs = length calls
           \<and> steps_done self' =
               Some (S \<union> (\<lambda>sc. 100 * (global_step (fst sc) div max_steps (fst sc))) ` set calls)"
  using assms
proof (induction calls arbitrary: self S)
  case Nil
  then show ?case by simp
next
  case (Cons a calls)
  obtain st c where a: "a = (st, c)" by (cases a)
  from Cons.prems a have nz: "max_steps st \<noteq> 0" by simp
  let ?p = "100 * (global_step st div max_steps st)"
  obtain c' self1 where step: "on_step_begin self args st c = (Inr c', self1)"
    and s1: "steps_done self1 = Some (insert ?p S)"
    using on_step_begin_returns[OF Cons.prems(1) nz, of args c] by blast
  from Cons.prems(2) have rest: "\<forall>sc \<in> set calls. max_steps (fst sc) \<noteq> 0" by simp
  from Cons.IH[OF s1 rest] obtain cs self' where
    r: "run_steps self1 args calls = (Inr cs, self')" "length cs = length calls"
      "steps_done self' = Some (insert ?p S \<union>
         (\<lambda>sc. 100 * (global_step (fst sc) div max_steps (fst sc))) ` set calls)"
    by blast
  show ?case using a step r by simp
qed

lemma run_steps_known_percent:
  assumes "steps_done self = Some S" and "max_steps state \<noteq> 0"
    and "100 * (global_step state div max_steps state) \<in> S"
  shows "run_steps self args (map (Pair state) controls) = (Inr controls, self)"
  using assms by (induction controls) (simp_all add: on_step_begin_known_percent)

lemma percents_of_run:
  "(\<lambda>sc. 100 * (global_step (fst sc) div max_steps (fst sc))) ` set (steps_of_run m ks)
   = (\<lambda>k. 100 * (k div m)) ` set ks"
  by (auto simp: steps_of_run_def image_iff)

lemma steps_of_run_nonzero:
  "m \<noteq> 0 \<Longrightarrow> \<forall>sc \<in> set (steps_of_run m ks). max_steps (fst sc) \<noteq> 0"
  by (auto simp: steps_of_run_def)

lemma positive_max_steps_nonzero:
  "positive_max_steps calls \<Longrightarrow> \<forall>sc \<in> set calls. max_steps (fst sc) \<noteq> 0"
  by (auto simp: positive_max_steps_def list_all_iff)

lemma positive_max_steps_append:
  "positive_max_steps (xs @ ys) \<longleftrightarrow> positive_max_steps xs \<and> positive_max_steps ys"
  by (simp add: positive_max_steps_def)

lemma within_run_percent:
  assumes "positive_max_steps calls" and "within_run calls" and "sc \<in> set calls"
  shows "100 * (global_step (fst sc) div max_steps (fst sc)) \<in> {0..100}"
proof (rule in_range_percent)
  from assms(1,3) show "0 < max_steps (fst sc)"
    by (auto simp: positive_max_steps_def list_all_iff)
  from assms(2,3) show "0 \<le> global_step (fst sc)"
    by (auto simp: within_run_def list_all_iff)
  from assms(2,3) show "global_step (fst sc) \<le> max_steps (fst sc)"
    by (auto simp: within_run_def list_all_iff)
qed

section \<open>The percent\<close>

text \<open>
  C1, as stated, fails. The claim is that for \<open>total_steps > 0\<close> the percent computed is
  \<open>floor(100 * current_step / total_steps)\<close> clamped to \<open>[0,100]\<close>, so exactly 100 for
  every \<open>current_step \<ge> total_steps\<close>. At step 6 of 3 the code computes 200: nothing
  in it clamps.
\<close>

theorem percent_clamp_counterexample:
  "percent 6 3 = Inr 200 \<and> clamped_percent 6 3 = 100
   \<and> percent 6 3 \<noteq> Inr (clamped_percent 6 3)"
  by (simp add: percent_def clamped_percent_def floor_percent_def)

text \<open>
  C1, amended. For \<open>total_steps > 0\<close> a percent is computed (no exception) and it is not
  clamped: at every whole multiple of \<open>total_steps\<close> it is
  \<open>floor(100 * current_step / total_steps)\<close> itself (0 at step 0, 100 at
  \<open>current_step = total_steps\<close>, 200 at twice that); for \<open>current_step \<ge> 0\<close> it is
  non-negative and never above \<open>floor(100 * current_step / total_steps)\<close>; it is at most
  100 up to \<open>total_steps\<close> and at least 100 from there on. What it is between two multiples
  of \<open>total_steps\<close> is not part of this statement.
\<close>

theorem percent_unclamped:
  assumes "0 < t"
  shows "\<exists>p. percent c t = Inr p
     \<and> (t dvd c \<longrightarrow> p = floor_percent c t)
     \<and> (0 \<le> c \<longrightarrow> 0 \<le> p \<and> p \<le> floor_percent c t)
     \<and> (c \<le> t \<longrightarrow> p \<le> 100)
     \<and> (t \<le> c \<longrightarrow> 100 \<le> p)"
proof -
  let ?p = "100 * (c div t)"
  have 1: "percent c t = Inr ?p" using assms by (simp add: percent_def)
  have 2: "t dvd c \<longrightarrow> ?p = floor_percent c t"
    by (simp add: floor_percent_def div_mult_swap)
  have 3: "0 \<le> c \<longrightarrow> 0 \<le> ?p \<and> ?p \<le> floor_percent c t"
    using assms scaled_floor_le[OF assms, of c]
    by (simp add: floor_percent_def pos_imp_zdiv_nonneg_iff)
  have 4: "c \<le> t \<longrightarrow> ?p \<le> 100"
  proof
    assume "c \<le> t"
    then have "c div t \<le> t div t" using assms by (intro zdiv_mono1) auto
    then show "?p \<le> 100" using assms by simp
  qed
  have 5: "t \<le> c \<longrightarrow> 100 \<le> ?p"
  proof
    assume "t \<le> c"
    then have "t div t \<le> c div t" using assms by (intro zdiv_mono1) auto
    then show "100 \<le> ?p" using assms by simp
  qed
  from 1 2 3 4 5 show ?thesis by blast
qed

text \<open>C1, amended, at step 3 of 3: every condition holds and the percent is 100.\<close>

theorem percent_unclamped_witness:
  "(0::int) < 3 \<and> (3::int) dvd 3 \<and> (0::int) \<le> 3 \<and> (3::int) \<le> 3
   \<and> percent 3 3 = Inr 100 \<and> floor_percent 3 3 = 100"
  using percent_unclamped [of 3 3]
  by (simp add: percent_def floor_percent_def)

section \<open>The constructor\<close>

text \<open>
  C2. The claim is that construction gives an instance whose milestone set is \<open>{0}\<close>.
  The constructor of the source builds \<open>{0}\<close> in a local variable only: the instance
  it returns has no \<^verbatim>\<open>steps_done\<close> attribute at all.
\<close>

theorem init_has_no_steps_done:
  "steps_done EvaluateOnEveryPercentCallback_init = None
   \<and> steps_done EvaluateOnEveryPercentCallback_init \<noteq> Some {0}"
  by (simp add: EvaluateOnEveryPercentCallback_init_def)

section \<open>Calls with a non-positive \<^verbatim>\<open>max_steps\<close>\<close>

text \<open>
  C3, as stated, fails. The claim is that every call with \<open>total_steps \<le> 0\<close> is rejected
  with a division or argument error and leaves the milestone set alone. With
  \<open>max_steps = -1\<close> nothing is rejected: at step 5 the floor division gives \<open>-5\<close>, the
  percent \<open>-500\<close> is added to the set and evaluation is requested.
\<close>

theorem negative_max_steps_counterexample:
  "on_step_begin \<lparr>steps_done = Some {0}\<rparr> () \<lparr>global_step = 5, max_steps = - 1\<rparr>
     \<lparr>should_evaluate = False\<rparr>
   = (Inr \<lparr>should_evaluate = True\<rparr>, \<lparr>steps_done = Some {- 500, 0}\<rparr>)"
  by (simp add: on_step_begin_def percent_def)

text \<open>
  C3, amended. A call fails with \<^verbatim>\<open>ZeroDivisionError\<close> exactly when \<open>max_steps = 0\<close>; the
  exception comes from the floor division, before the set is read, and the instance
  is left as it was.
\<close>

theorem zero_max_steps_raises:
  "(fst (on_step_begin self args state control) = Inl ZeroDivisionError)
     = (max_steps state = 0)
   \<and> (max_steps state = 0 \<longrightarrow>
        on_step_begin self args state control = (Inl ZeroDivisionError, self))"
  by (cases "max_steps state = 0"; cases "steps_done self")
    (auto simp: on_step_begin_def percent_def Let_def)

text \<open>C3, amended, at \<^verbatim>\<open>should_evaluate(5, 0)\<close>.\<close>

theorem zero_max_steps_raises_witness:
  "max_steps \<lparr>global_step = 5, max_steps = 0\<rparr> = 0
   \<and> on_step_begin \<lparr>steps_done = Some {0}\<rparr> () \<lparr>global_step = 5, max_steps = 0\<rparr>
        \<lparr>should_evaluate = False\<rparr>
      = (Inl ZeroDivisionError, \<lparr>steps_done = Some {0}\<rparr>)"
  using zero_max_steps_raises [of "\<lparr>steps_done = Some {0}\<rparr>" "()"
      "\<lparr>global_step = 5, max_steps = 0\<rparr>" "\<lparr>should_evaluate = False\<rparr>"]
  by simp

section \<open>The milestone set over a run\<close>

text \<open>
  C4, as stated, fails. The claim is that over any sequence of calls with
  \<open>total_steps > 0\<close> the set only grows and never holds more than 101 entries. The set
  only grows, but it is not bounded: from \<open>{0}\<close>, the calls at steps 1 to 101 of a run
  with \<open>max_steps = 1\<close> add the percents 100, 200, ..., 10100 and leave 102 entries.
\<close>

theorem overrun_set_counterexample:
  "positive_max_steps (steps_of_run 1 [1..101])
   \<and> map_option card
       (steps_done (snd (run_steps \<lparr>steps_done = Some {0}\<rparr> () (steps_of_run 1 [1..101]))))
     = Some 102"
proof -
  have g: "steps_done \<lparr>steps_done = Some {0::int}\<rparr> = Some {0}" by simp
  have "steps_done (snd (run_steps \<lparr>steps_done = Some {0}\<rparr> () (steps_of_run 1 [1..101])))
        = Some ({0} \<union> (\<lambda>k. 100 * (k div 1)) ` set [1..101])"
    using run_steps_with_set[OF g steps_of_run_nonzero[of 1 "[1..101]"], of "()"]
    by (auto simp: percents_of_run)
  moreover have "{0} \<union> (\<lambda>k. 100 * (k div 1)) ` set [1..101] = (\<lambda>k. 100 * k) ` {0..101::int}"
    by (auto simp: image_iff)
  moreover have "card ((\<lambda>k. 100 * k) ` {0..101::int}) = 102"
    by (subst card_image) (auto simp: inj_on_def)
  moreover have "positive_max_steps (steps_of_run 1 [1..101])"
    by (auto simp: positive_max_steps_def steps_of_run_def list_all_iff)
  ultimately show ?thesis by simp
qed

text \<open>
  C4, amended. On an instance that has a milestone set, every sequence of calls with
  \<open>total_steps > 0\<close> returns each time and the set only gains elements: the set after a
  prefix of the calls is contained in the set after the whole sequence. If moreover the
  set starts inside \<open>[0,100]\<close> (as \<open>{0}\<close> does) and every call has
  \<open>0 \<le> current_step \<le> total_steps\<close>, the set stays inside \<open>[0,100]\<close> and has at most 101
  entries.
\<close>

theorem milestone_set_grows:
  assumes "steps_done self = Some S"
      and "positive_max_steps (xs @ ys)"
  shows "\<exists>cs S1 S2. fst (run_steps self args (xs @ ys)) = Inr cs
         \<and> steps_done (snd (run_steps self args xs)) = Some S1
         \<and> steps_done (snd (run_steps self args (xs @ ys))) = Some S2
         \<and> S \<subseteq> S1 \<and> S1 \<subseteq> S2
         \<and> (S \<subseteq> {0..100} \<and> within_run (xs @ ys) \<longrightarrow> S2 \<subseteq> {0..100} \<and> card S2 \<le> 101)"
proof -
  let ?f = "\<lambda>sc :: 'a TrainerState_scheme \<times> 'b TrainerControl_scheme.
              100 * (global_step (fst sc) div max_steps (fst sc))"
  from assms(2) have "positive_max_steps xs" by (simp add: positive_max_steps_append)
  then have nzx: "\<forall>sc \<in> set xs. max_steps (fst sc) \<noteq> 0"
    by (rule positive_max_steps_nonzero)
  from assms(2) have nz: "\<forall>sc \<in> set (xs @ ys). max_steps (fst sc) \<noteq> 0"
    by (rule positive_max_steps_nonzero)
  from run_steps_with_set[OF assms(1) nzx, of args]
  have 1: "steps_done (snd (run_steps self args xs)) = Some (S \<union> ?f ` set xs)" by auto
  from run_steps_with_set[OF assms(1) nz, of args]
  obtain cs where 2: "fst (run_steps self args (xs @ ys)) = Inr cs"
    and 3: "steps_done (snd (run_steps self args (xs @ ys))) = Some (S \<union> ?f ` set (xs @ ys))"
    by auto
  have 4: "S \<subseteq> {0..100} \<and> within_run (xs @ ys)
            \<longrightarrow> S \<union> ?f ` set (xs @ ys) \<subseteq> {0..100} \<and> card (S \<union> ?f ` set (xs @ ys)) \<le> 101"
  proof (intro impI, elim conjE)
    assume S: "S \<subseteq> {0..100}" and r: "within_run (xs @ ys)"
    have "?f sc \<in> {0..100}" if "sc \<in> set (xs @ ys)" for sc
      using assms(2) r that by (rule within_run_percent)
    then have "?f ` set (xs @ ys) \<subseteq> {0..100}" by (intro image_subsetI)
    with S have sub: "S \<union> ?f ` set (xs @ ys) \<subseteq> {0..100}" by (intro Un_least)
    have "card (S \<union> ?f ` set (xs @ ys)) \<le> card {0..100::int}"
      using sub by (intro card_mono) auto
    with sub show "S \<union> ?f ` set (xs @ ys) \<subseteq> {0..100} \<and> card (S \<union> ?f ` set (xs @ ys)) \<le> 101"
      by simp
  qed
  have 5: "S \<union> ?f ` set xs \<subseteq> S \<union> ?f ` set (xs @ ys)" by auto
  have 6: "S \<subseteq> S \<union> ?f ` set xs" by (rule Un_upper1)
  show ?thesis
    apply (rule exI[of _ cs])
    apply (rule exI[of _ "S \<union> ?f ` set xs"])
    apply (rule exI[of _ "S \<union> ?f ` set (xs @ ys)"])
    apply (intro conjI)
         apply (rule 2)
        apply (rule 1)
       apply (rule 3)
      apply (rule 6)
     apply (rule 5)
    apply (rule 4)
    done
qed

text \<open>
  C4, amended, on the run of 3 steps called at steps 0, 1 and then 2, 3, from \<open>{0}\<close>:
  the set is \<open>{0}\<close> after the first two calls and \<open>{0, 100}\<close> after all four.
\<close>

theorem milestone_set_grows_witness:
  "steps_done \<lparr>steps_done = Some {0}\<rparr> = Some {0}
   \<and> positive_max_steps (steps_of_run 3 [0, 1] @ steps_of_run 3 [2, 3])
   \<and> {0} \<subseteq> {0..100::int}
   \<and> within_run (steps_of_run 3 [0, 1] @ steps_of_run 3 [2, 3])
   \<and> steps_done (snd (run_steps \<lparr>steps_done = Some {0}\<rparr> () (steps_of_run 3 [0, 1])))
       = Some {0}
   \<and> steps_done (snd (run_steps \<lparr>steps_done = Some {0}\<rparr> ()
                         (steps_of_run 3 [0, 1] @ steps_of_run 3 [2, 3])))
       = Some {100, 0}
   \<and> card {100, 0::int} \<le> 101"
  using milestone_set_grows [of "\<lparr>steps_done = Some {0}\<rparr>" "{0}"
      "steps_of_run 3 [0, 1]" "steps_of_run 3 [2, 3]" "()"]
  by (simp add: steps_of_run_def positive_max_steps_def within_run_def
      on_step_begin_def percent_def)

section \<open>One call\<close>

text \<open>
  What the method does on an instance that was given a milestone set \<open>S\<close>, for
  \<open>total_steps > 0\<close>: it computes a percent \<open>p\<close>; if \<open>p\<close> is not in \<open>S\<close> it adds \<open>p\<close> to
  the set and returns the control with \<^verbatim>\<open>should_evaluate\<close> set to \<open>True\<close>; otherwise it
  returns the control as it got it, and the instance, with its set, is exactly as
  before.
\<close>

lemma on_step_begin_new_percent:
  assumes "steps_done self = Some S" and "0 < max_steps state"
  shows "\<exists>p. percent (global_step state) (max_steps state) = Inr p \<and>
     on_step_begin self args state control =
       (if p \<notin> S
        then (Inr (control\<lparr>should_evaluate := True\<rparr>), self\<lparr>steps_done := Some (insert p S)\<rparr>)
        else (Inr control, self))"
  using assms by (simp add: on_step_begin_def percent_def)

text \<open>
  On the set \<open>{0}\<close>: step 3 of 3 has the new percent 100, step 1 of 3 has the known
  percent 0.
\<close>

lemma on_step_begin_new_percent_witness:
  "steps_done \<lparr>steps_done = Some {0}\<rparr> = Some {0}
   \<and> 0 < max_steps \<lparr>global_step = 3, max_steps = 3\<rparr>
   \<and> percent 3 3 = Inr 100 \<and> 100 \<notin> {0::int}
   \<and> on_step_begin \<lparr>steps_done = Some {0}\<rparr> () \<lparr>global_step = 3, max_steps = 3\<rparr>
        \<lparr>should_evaluate = False\<rparr>
      = (Inr \<lparr>should_evaluate = True\<rparr>, \<lparr>steps_done = Some {100, 0}\<rparr>)
   \<and> 0 < max_steps \<lparr>global_step = 1, max_steps = 3\<rparr>
   \<and> percent 1 3 = Inr 0 \<and> 0 \<in> {0::int}
   \<and> on_step_begin \<lparr>steps_done = Some {0}\<rparr> () \<lparr>global_step = 1, max_steps = 3\<rparr>
        \<lparr>should_evaluate = False\<rparr>
      = (Inr \<lparr>should_evaluate = False\<rparr>, \<lparr>steps_done = Some {0}\<rparr>)"
  using on_step_begin_new_percent [of "\<lparr>steps_done = Some {0}\<rparr>" "{0}"
      "\<lparr>global_step = 3, max_steps = 3\<rparr>" "()" "\<lparr>should_evaluate = False\<rparr>"]
    on_step_begin_new_percent [of "\<lparr>steps_done = Some {0}\<rparr>" "{0}"
      "\<lparr>global_step = 1, max_steps = 3\<rparr>" "()" "\<lparr>should_evaluate = False\<rparr>"]
  by (simp add: percent_def)

text \<open>
  C5. The claim is that every call with \<open>total_steps > 0\<close> whose percent is not in the
  milestone set adds it and answers true, and otherwise answers false and leaves the set
  alone. The instance the constructor builds has no milestone set, and a call on it
  does neither: at step 3 of 3 (percent 100, which is to be added) and at step 1 of 3
  (percent 0, which is to be known) it raises \<^verbatim>\<open>AttributeError\<close> at the membership test
  and the instance still has no set.
\<close>

theorem call_on_constructed_instance:
  "percent 3 3 = Inr 100
   \<and> on_step_begin EvaluateOnEveryPercentCallback_init () \<lparr>global_step = 3, max_steps = 3\<rparr>
        \<lparr>should_evaluate = False\<rparr>
      = (Inl AttributeError, EvaluateOnEveryPercentCallback_init)
   \<and> percent 1 3 = Inr 0
   \<and> on_step_begin EvaluateOnEveryPercentCallback_init () \<lparr>global_step = 1, max_steps = 3\<rparr>
        \<lparr>should_evaluate = False\<rparr>
      = (Inl AttributeError, EvaluateOnEveryPercentCallback_init)
   \<and> steps_done EvaluateOnEveryPercentCallback_init = None"
  by (simp add: on_step_begin_def percent_def EvaluateOnEveryPercentCallback_init_def)

section \<open>The run of three steps\<close>

text \<open>
  C6. The claim ends with the run \<open>total_steps = 3\<close>, steps 0, 1, 2, 3, which is to
  compute the percents 0, 33, 66, 100 and to answer false, true, true, true. On the
  instance the constructor builds, the first call raises \<^verbatim>\<open>AttributeError\<close>. The
  percents the code computes are 0, 0, 0, 100; on an instance given the set \<open>{0}\<close> the
  four calls answer false, false, false, true.
\<close>

theorem three_step_run_from_construction:
  "run_steps EvaluateOnEveryPercentCallback_init () (steps_of_run 3 [0, 1, 2, 3])
     = (Inl AttributeError, EvaluateOnEveryPercentCallback_init)
   \<and> percent 0 3 = Inr 0 \<and> percent 1 3 = Inr 0 \<and> percent 2 3 = Inr 0
   \<and> percent 3 3 = Inr 100
   \<and> floor_percent 1 3 = 33 \<and> floor_percent 2 3 = 66
   \<and> run_steps \<lparr>steps_done = Some {0}\<rparr> () (steps_of_run 3 [0, 1, 2, 3])
     = (Inr [\<lparr>should_evaluate = False\<rparr>, \<lparr>should_evaluate = False\<rparr>,
             \<lparr>should_evaluate = False\<rparr>, \<lparr>should_evaluate = True\<rparr>],
        \<lparr>steps_done = Some {100, 0}\<rparr>)"
  by (simp add: steps_of_run_def on_step_begin_def percent_def floor_percent_def
      EvaluateOnEveryPercentCallback_init_def)

section \<open>The first call after construction\<close>

text \<open>
  C7. The claim is that the first call \<^verbatim>\<open>should_evaluate(0, T)\<close> on a freshly constructed
  instance answers false for every \<open>T > 0\<close>. On the instance the constructor builds,
  every call raises: \<^verbatim>\<open>ZeroDivisionError\<close> when \<open>max_steps\<close> is 0 and \<^verbatim>\<open>AttributeError\<close>
  otherwise, so for every \<open>T > 0\<close>.
\<close>

theorem fresh_instance_raises:
  "on_step_begin EvaluateOnEveryPercentCallback_init args state control
   = (Inl (if max_steps state = 0 then ZeroDivisionError else AttributeError),
      EvaluateOnEveryPercentCallback_init)"
  by (simp add: on_step_begin_def percent_def EvaluateOnEveryPercentCallback_init_def)

section \<open>Repeated calls\<close>

text \<open>
  What repetition does on an instance that was given a milestone set, at any step of a
  run with \<open>total_steps > 0\<close>: the first call at that step returns. From then on a call
  with the same arguments returns its control as it got it and leaves the instance
  alone, however often it is repeated, and also after any other calls with
  \<open>total_steps > 0\<close> made in between.
\<close>

lemma repeated_call_suppressed:
  fixes state :: "'s TrainerState_scheme" and control :: "'c TrainerControl_scheme"
  assumes "steps_done self = Some S" and "0 < max_steps state"
  shows "\<exists>control' self'. on_step_begin self args state control = (Inr control', self')
     \<and> (\<forall>controls :: 'c TrainerControl_scheme list.
           run_steps self' args (map (Pair state) controls) = (Inr controls, self'))
     \<and> (\<forall>later :: ('s TrainerState_scheme \<times> 'c TrainerControl_scheme) list.
           positive_max_steps later \<longrightarrow>
           (\<exists>cs self''. run_steps self' args later = (Inr cs, self'')
              \<and> (\<forall>control2 :: 'c TrainerControl_scheme.
                    on_step_begin self'' args state control2 = (Inr control2, self''))))"
proof -
  let ?p = "100 * (global_step state div max_steps state)"
  from assms(2) have nz: "max_steps state \<noteq> 0" by simp
  obtain control' self' where
    first: "on_step_begin self args state control = (Inr control', self')"
    and set': "steps_done self' = Some (insert ?p S)"
    using on_step_begin_returns[OF assms(1) nz, of args control] by blast
  have rep: "run_steps self' args (map (Pair state) controls) = (Inr controls, self')"
    for controls :: "'c TrainerControl_scheme list"
    by (rule run_steps_known_percent[OF set' nz]) simp
  have later: "\<exists>cs self''. run_steps self' args later = (Inr cs, self'')
              \<and> (\<forall>control2 :: 'c TrainerControl_scheme.
                    on_step_begin self'' args state control2 = (Inr control2, self''))"
    if pos: "positive_max_steps later"
    for later :: "('s TrainerState_scheme \<times> 'c TrainerControl_scheme) list"
  proof -
    from pos have "\<forall>sc \<in> set later. max_steps (fst sc) \<noteq> 0"
      by (rule positive_max_steps_nonzero)
    from run_steps_with_set[OF set' this, of args] obtain cs self'' where
      run: "run_steps self' args later = (Inr cs, self'')"
      and set'': "steps_done self'' = Some (insert ?p S \<union>
         (\<lambda>sc. 100 * (global_step (fst sc) div max_steps (fst sc))) ` set later)"
      by blast
    have "on_step_begin self'' args state control2 = (Inr control2, self'')"
      for control2 :: "'c TrainerControl_scheme"
      by (rule on_step_begin_known_percent[OF set'' nz]) simp
    with run show ?thesis by blast
  qed
  from first rep later show ?thesis by blast
qed

text \<open>
  From the set \<open>{0}\<close> at step 3 of 3: the first call sets the flag; two repetitions
  return the control untouched; after a call at step 4 of another run of 2 steps, which
  adds 200, the call at step 3 of 3 still returns the control untouched.
\<close>

lemma repeated_call_suppressed_witness:
  "steps_done \<lparr>steps_done = Some {0}\<rparr> = Some {0}
   \<and> 0 < max_steps \<lparr>global_step = 3, max_steps = 3\<rparr>
   \<and> on_step_begin \<lparr>steps_done = Some {0}\<rparr> () \<lparr>global_step = 3, max_steps = 3\<rparr>
        \<lparr>should_evaluate = False\<rparr>
      = (Inr \<lparr>should_evaluate = True\<rparr>, \<lparr>steps_done = Some {100, 0}\<rparr>)
   \<and> run_steps \<lparr>steps_done = Some {100, 0}\<rparr> ()
        (map (Pair \<lparr>global_step = 3, max_steps = 3\<rparr>)
           [\<lparr>should_evaluate = False\<rparr>, \<lparr>should_evaluate = False\<rparr>])
      = (Inr [\<lparr>should_evaluate = False\<rparr>, \<lparr>should_evaluate = False\<rparr>],
         \<lparr>steps_done = Some {100, 0}\<rparr>)
   \<and> positive_max_steps (steps_of_run 2 [4])
   \<and> run_steps \<lparr>steps_done = Some {100, 0}\<rparr> () (steps_of_run 2 [4])
      = (Inr [\<lparr>should_evaluate = True\<rparr>], \<lparr>steps_done = Some {200, 100, 0}\<rparr>)
   \<and> on_step_begin \<lparr>steps_done = Some {200, 100, 0}\<rparr> () \<lparr>global_step = 3, max_steps = 3\<rparr>
        \<lparr>should_evaluate = False\<rparr>
      = (Inr \<lparr>should_evaluate = False\<rparr>, \<lparr>steps_done = Some {200, 100, 0}\<rparr>)"
  using repeated_call_suppressed [of "\<lparr>steps_done = Some {0}\<rparr>" "{0}"
      "\<lparr>global_step = 3, max_steps = 3\<rparr>" "()" "\<lparr>should_evaluate = False\<rparr>"]
  by (simp add: steps_of_run_def positive_max_steps_def on_step_begin_def percent_def)

text \<open>
  C8. The claim is that from every gate state, repeated calls with the same arguments
  answer true on the first call at most and false on every repetition. From the state
  the constructor leaves, the call at step 3 of 3 raises \<^verbatim>\<open>AttributeError\<close> and leaves
  the instance as it was, so every repetition raises again: a sequence of three such
  calls ends at the first with the exception, and none of them answers false.
\<close>

theorem repeated_calls_on_constructed_instance:
  "on_step_begin EvaluateOnEveryPercentCallback_init () \<lparr>global_step = 3, max_steps = 3\<rparr>
        \<lparr>should_evaluate = False\<rparr>
      = (Inl AttributeError, EvaluateOnEveryPercentCallback_init)
   \<and> run_steps EvaluateOnEveryPercentCallback_init ()
        (map (Pair \<lparr>global_step = 3, max_steps = 3\<rparr>)
           [\<lparr>should_evaluate = False\<rparr>, \<lparr>should_evaluate = False\<rparr>,
            \<lparr>should_evaluate = False\<rparr>])
      = (Inl AttributeError, EvaluateOnEveryPercentCallback_init)"
  by (simp add: on_step_begin_def percent_def EvaluateOnEveryPercentCallback_init_def)

section \<open>The control object\<close>

text \<open>
  C9, as stated, fails. The claim is that every call returns the control it was passed.
  A call with \<open>max_steps = 0\<close> returns nothing: it raises \<^verbatim>\<open>ZeroDivisionError\<close>.
\<close>

theorem zero_max_steps_counterexample:
  "fst (on_step_begin \<lparr>steps_done = Some {0}\<rparr> () \<lparr>global_step = 5, max_steps = 0\<rparr>
          \<lparr>should_evaluate = False\<rparr>)
   = Inl ZeroDivisionError"
  by (simp add: on_step_begin_def percent_def)

text \<open>
  C9, amended. On an instance that has a milestone set, every call with \<open>max_steps\<close> other
  than 0 returns the control it was passed. When the percent is already in the set the
  control comes back with every field as the caller supplied it, \<^verbatim>\<open>should_evaluate\<close>
  included; when the percent is new, \<^verbatim>\<open>should_evaluate\<close> is set to \<open>True\<close> and no other
  field changes.
\<close>

theorem on_step_begin_control_frame:
  assumes "steps_done self = Some S" and "max_steps state \<noteq> 0"
  shows "\<exists>p control'. percent (global_step state) (max_steps state) = Inr p
     \<and> fst (on_step_begin self args state control) = Inr control'
     \<and> control' = (if p \<in> S then control else control\<lparr>should_evaluate := True\<rparr>)
     \<and> TrainerControl.more control' = TrainerControl.more control"
  using assms by (simp add: on_step_begin_def percent_def)

text \<open>
  C9, amended, at step 1 of 3 on the set \<open>{0}\<close>, where the percent 0 is known: a control
  whose flag is set comes back set, one whose flag is clear comes back clear.
\<close>

theorem on_step_begin_control_frame_witness:
  "steps_done \<lparr>steps_done = Some {0}\<rparr> = Some {0}
   \<and> max_steps \<lparr>global_step = 1, max_steps = 3\<rparr> \<noteq> 0
   \<and> percent 1 3 = Inr 0 \<and> 0 \<in> {0::int}
   \<and> fst (on_step_begin \<lparr>steps_done = Some {0}\<rparr> () \<lparr>global_step = 1, max_steps = 3\<rparr>
        \<lparr>should_evaluate = True\<rparr>) = Inr \<lparr>should_evaluate = True\<rparr>
   \<and> fst (on_step_begin \<lparr>steps_done = Some {0}\<rparr> () \<lparr>global_step = 1, max_steps = 3\<rparr>
        \<lparr>should_evaluate = False\<rparr>) = Inr \<lparr>should_evaluate = False\<rparr>"
  using on_step_begin_control_frame [of "\<lparr>steps_done = Some {0}\<rparr>" "{0}"
      "\<lparr>global_step = 1, max_steps = 3\<rparr>" "()" "\<lparr>should_evaluate = True\<rparr>"]
    on_step_begin_control_frame [of "\<lparr>steps_done = Some {0}\<rparr>" "{0}"
      "\<lparr>global_step = 1, max_steps = 3\<rparr>" "()" "\<lparr>should_evaluate = False\<rparr>"]
  by (simp add: percent_def)

section \<open>The split of the LLM preprocessor\<close>

text \<open>
  C10. An \<^verbatim>\<open>LLMPreprocessor\<close> whose \<^verbatim>\<open>valid_data\<close> is \<open>None\<close> returns its training dataframe
  twice from \<^verbatim>\<open>split\<close>: the validation dataframe is the training dataframe, and no split
  routine takes part. A \<^verbatim>\<open>TextBinaryClassificationPreprocessor\<close> in the same situation
  returns the two parts the split routine makes of its training dataframe, each with
  its index reset.
\<close>

theorem llm_split_without_valid_data:
  assumes "LLMPreprocessor.valid_data self = None"
  shows "LLMPreprocessor_split self
           = (LLMPreprocessor.train_data self, LLMPreprocessor.train_data self)
     \<and> (TextBinaryClassificationPreprocessor.valid_data other = None \<longrightarrow>
          TextBinaryClassificationPreprocessor_split train_test_split getitem reset_index other
            = (reset_index (fst (train_test_split
                 (TextBinaryClassificationPreprocessor.train_data other)
                 (TextBinaryClassificationPreprocessor.test_size other)
                 (TextBinaryClassificationPreprocessor.seed other)
                 (getitem (TextBinaryClassificationPreprocessor.train_data other)
                    (label_column other)))),
               reset_index (snd (train_test_split
                 (TextBinaryClassificationPreprocessor.train_data other)
                 (TextBinaryClassificationPreprocessor.test_size other)
                 (TextBinaryClassificationPreprocessor.seed other)
                 (getitem (TextBinaryClassificationPreprocessor.train_data other)
                    (label_column other))))))"
  using assms
  by (simp add: LLMPreprocessor_split_def TextBinaryClassificationPreprocessor_split_def
      split: prod.split)

text \<open>
  C10 on a dataframe of three rows, with a split routine that cuts after the second row:
  the LLM preprocessor returns the three rows twice, the classification preprocessor
  two rows and one.
\<close>

theorem llm_split_without_valid_data_witness:
  "LLMPreprocessor.valid_data
     \<lparr>train_data = [''a'', ''b'', ''c''], username = ''u'', project_name = ''p'', token = ''t'',
      valid_data = None, test_size = Some (0.2::real), seed = Some 42,
      text_column = Some ''text'', prompt_column = None, rejected_text_column = None\<rparr> = None
   \<and> LLMPreprocessor_split
     \<lparr>train_data = [''a'', ''b'', ''c''], username = ''u'', project_name = ''p'', token = ''t'',
      valid_data = None, test_size = Some (0.2::real), seed = Some 42,
      text_column = Some ''text'', prompt_column = None, rejected_text_column = None\<rparr>
     = ([''a'', ''b'', ''c''], [''a'', ''b'', ''c''])
   \<and> TextBinaryClassificationPreprocessor.valid_data
     \<lparr>TextBinaryClassificationPreprocessor.train_data = [''a'', ''b'', ''c''], TextBinaryClassificationPreprocessor.text_column = ''text'',
      TextBinaryClassificationPreprocessor.label_column = ''label'', TextBinaryClassificationPreprocessor.username = ''u'', TextBinaryClassificationPreprocessor.project_name = ''p'',
      TextBinaryClassificationPreprocessor.token = ''t'', TextBinaryClassificationPreprocessor.valid_data = None, TextBinaryClassificationPreprocessor.test_size = Some (0.2::real),
      TextBinaryClassificationPreprocessor.seed = Some 42, TextBinaryClassificationPreprocessor.convert_to_class_label = Some False\<rparr> = None
   \<and> TextBinaryClassificationPreprocessor_split
       (\<lambda>df test_size random_state stratify. (take 2 df, drop 2 df)) (\<lambda>df column. df) id
     \<lparr>TextBinaryClassificationPreprocessor.train_data = [''a'', ''b'', ''c''], TextBinaryClassificationPreprocessor.text_column = ''text'',
      TextBinaryClassificationPreprocessor.label_column = ''label'', TextBinaryClassificationPreprocessor.username = ''u'', TextBinaryClassificationPreprocessor.project_name = ''p'',
      TextBinaryClassificationPreprocessor.token = ''t'', TextBinaryClassificationPreprocessor.valid_data = None, TextBinaryClassificationPreprocessor.test_size = Some (0.2::real),
      TextBinaryClassificationPreprocessor.seed = Some 42, TextBinaryClassificationPreprocessor.convert_to_class_label = Some False\<rparr>
     = ([''a'', ''b''], [''c''])"
  using llm_split_without_valid_data [of
     "\<lparr>train_data = [''a'', ''b'', ''c''], username = ''u'', project_name = ''p'', token = ''t'',
      valid_data = None, test_size = Some (0.2::real), seed = Some 42,
      text_column = Some ''text'', prompt_column = None, rejected_text_column = None\<rparr>"
     "\<lparr>TextBinaryClassificationPreprocessor.train_data = [''a'', ''b'', ''c''], TextBinaryClassificationPreprocessor.text_column = ''text'',
      TextBinaryClassificationPreprocessor.label_column = ''label'', TextBinaryClassificationPreprocessor.username = ''u'', TextBinaryClassificationPreprocessor.project_name = ''p'',
      TextBinaryClassificationPreprocessor.token = ''t'', TextBinaryClassificationPreprocessor.valid_data = None, TextBinaryClassificationPreprocessor.test_size = Some (0.2::real),
      TextBinaryClassificationPreprocessor.seed = Some 42, TextBinaryClassificationPreprocessor.convert_to_class_label = Some False\<rparr>"
     "\<lambda>df test_size random_state stratify. (take 2 df, drop 2 df)" "\<lambda>df column. df" id]
  by simp

end
